theory Spec2Isabelle
  imports Complex_Main "HOL-Library.Char_ord" "HOL-Library.List_Lexorder" "HOL-Library.Multiset"
begin

section \<open>The meeting-booking server (src/server.js)\<close>

text \<open>
  The server keeps one JSON file of bookings and answers three requests: list the
  bookings, create one from a (date, time, duration) body, delete one by id. This theory
  embeds the slot validator (\<open>toMinutes\<close>, \<open>parseAndValidateSlot\<close>), the overlap test
  (\<open>hasOverlap\<close>), the file access (\<open>ensureDataFile\<close>, \<open>readBookings\<close>,
  \<open>writeBookings\<close>) and the three branches of \<open>handleApi\<close>.

  Conventions of the embedding.
  \<^item> JavaScript strings are \<open>string\<close>; every character the code inspects is ASCII.
  \<^item> The numbers a booking stores (\<open>duration\<close>, \<open>startMinutes\<close>, \<open>endMinutes\<close>) are
    \<open>int\<close>. The validator only lets integers through: the start is at most
    \<open>99 * 60 + 99\<close>, the duration is an integer, and a sum above \<open>1440\<close> is refused, so
    the double-precision addition of the source is exact on everything it accepts and
    compares as the integer sum does on everything it refuses.
  \<^item> The request body is what \<open>JSON.parse\<close> returned: \<open>null\<close>, on which reading a
    property throws, or any other value, of which the validator reads three properties.
    The \<open>duration\<close> property is modelled by what \<open>Number(...)\<close> does with it: it
    throws, or it returns a value of type \<open>number\<close>, which keeps \<open>NaN\<close>, the infinities
    and the non-integers apart.
  \<^item> The data file is modelled by what \<open>fs.existsSync\<close> and \<open>JSON.parse\<close> make of it:
    absent, text that \<open>JSON.parse\<close> refuses, or a parsed value that is an array of
    bookings or something else. \<open>JSON.stringify\<close> followed by \<open>JSON.parse\<close> gives the
    bookings back.
  \<^item> \<open>randomUUID()\<close> and \<open>new Date().toISOString()\<close> are arguments of the handler,
    and so is the runtime's \<open>String.prototype.localeCompare\<close>.
\<close>

subsection \<open>Data\<close>

record slot =
  date :: string
  time :: string
  duration :: int
  startMinutes :: int
  endMinutes :: int

text \<open>A booking is a slot with an \<open>id\<close> (here \<open>ident\<close>) and a creation time.\<close>

record booking = slot +
  ident :: string
  createdAt :: string

text \<open>A JavaScript number, as far as \<open>Number.isInteger\<close> and \<open>> 0\<close> tell values apart.\<close>

datatype number = NaN | PosInfinity | NegInfinity | Finite rat

text \<open>A field of the request body as \<open>typeof\<close> sees it: a string or anything else
  (a number, \<open>null\<close>, \<open>undefined\<close>, an object).\<close>

datatype field = Str string | NotStr

text \<open>The \<open>duration\<close> property by what \<open>Number(body.duration)\<close> does with it. An object
  with an own property \<open>toString\<close> (never a function in parsed JSON) has no primitive
  value, and \<open>Number\<close> throws a \<open>TypeError\<close>; an array that holds such an object does the
  same. Every other value is coerced to a number: \<open>undefined\<close> to \<open>NaN\<close>, \<open>null\<close> to \<open>0\<close>,
  a string to the number it spells or to \<open>NaN\<close>.\<close>

datatype coercion = NotCoercible | Coerced number

record properties =
  b_date :: field
  b_time :: field
  b_duration :: coercion

text \<open>The parsed request body: \<open>null\<close>, or a value whose properties can be read (an
  object, or an array, a string, a number or a boolean, whose three properties are
  \<open>undefined\<close>).\<close>

datatype body = JsonNull | JsonValue properties

text \<open>The exceptions of the model: reading a property of \<open>null\<close> and \<open>Number\<close> on a value
  without a primitive (\<open>TypeError\<close>), \<open>JSON.parse\<close> on a text it refuses
  (\<open>SyntaxError\<close>), and \<open>fs.readFileSync\<close> on a file that does not exist.\<close>

datatype exn = TypeError | SyntaxError | ENOENT

text \<open>What a call of the validator does: it throws, it returns \<open>{ error: message }\<close>, or
  it returns the slot.\<close>

datatype validation = Throws exn | Rejected string | Accepted slot

subsection \<open>The slot validator\<close>

text \<open>The two regular expressions are sequences of one-character atoms between \<open>^\<close>
  and \<open>$\<close>; without the \<open>m\<close> flag \<open>$\<close> is the end of the input, and without the \<open>u\<close>
  flag \<open>\d\<close> is \<open>[0-9]\<close>.\<close>

datatype atom = Digit | Lit char

definition is_digit :: "char \<Rightarrow> bool" where
  "is_digit c = (48 \<le> (of_char c :: nat) \<and> (of_char c :: nat) \<le> 57)"

fun atom_matches :: "atom \<Rightarrow> char \<Rightarrow> bool" where
  "atom_matches Digit c = is_digit c"
| "atom_matches (Lit l) c = (c = l)"

fun test :: "atom list \<Rightarrow> string \<Rightarrow> bool" where
  "test [] [] = True"
| "test (a # as) (c # cs) = (atom_matches a c \<and> test as cs)"
| "test _ _ = False"

definition DATE_RE :: "atom list" where
  "DATE_RE = replicate 4 Digit @ [Lit (CHR ''-'')] @ replicate 2 Digit @ [Lit (CHR ''-'')]
     @ replicate 2 Digit"

definition TIME_RE :: "atom list" where
  "TIME_RE = replicate 2 Digit @ [Lit (CHR '':'')] @ replicate 2 Digit"

text \<open>\<open>String.prototype.split\<close> with a one-character separator.\<close>

fun split_acc :: "char \<Rightarrow> string \<Rightarrow> string \<Rightarrow> string list" where
  "split_acc sep cur [] = [rev cur]"
| "split_acc sep cur (c # cs) =
     (if c = sep then rev cur # split_acc sep [] cs else split_acc sep (c # cur) cs)"

definition split :: "char \<Rightarrow> string \<Rightarrow> string list" where
  "split sep s = split_acc sep [] s"

text \<open>\<open>Number(s)\<close> for a string of decimal digits, the empty string included
  (\<open>Number('')\<close> is \<open>0\<close>). \<open>None\<close> stands for every other string: its coercion is not
  modelled, and the validator never asks for it.\<close>

definition digit_val :: "char \<Rightarrow> int" where
  "digit_val c = int (of_char c) - 48"

definition Number_str :: "string \<Rightarrow> int option" where
  "Number_str s =
     (if list_all is_digit s
      then Some (foldl (\<lambda>acc c. 10 * acc + digit_val c) 0 s)
      else None)"

text \<open>\<open>toMinutes\<close>: the first two parts of the split, as numbers. \<open>None\<close> when a part
  is missing (\<open>NaN\<close> in the source) or is not a digit string.\<close>

definition toMinutes :: "string \<Rightarrow> int option" where
  "toMinutes t =
     (case map Number_str (split (CHR '':'') t) of
        Some hours # Some minutes # _ \<Rightarrow> Some ((hours * 60) + minutes)
      | _ \<Rightarrow> None)"

definition isInteger :: "number \<Rightarrow> bool" where
  "isInteger n = (case n of Finite q \<Rightarrow> of_int \<lfloor>q\<rfloor> = q | _ \<Rightarrow> False)"

definition gt_zero :: "number \<Rightarrow> bool" where
  "gt_zero n = (case n of Finite q \<Rightarrow> q > 0 | PosInfinity \<Rightarrow> True | _ \<Rightarrow> False)"

definition str_or_empty :: "field \<Rightarrow> string" where
  "str_or_empty f = (case f of Str s \<Rightarrow> s | NotStr \<Rightarrow> [])"

definition INVALID :: string where
  "INVALID = ''Invalid date, time, or duration.''"

definition MIDNIGHT :: string where
  "MIDNIGHT = ''Meeting cannot cross midnight.''"

text \<open>\<open>parseAndValidateSlot\<close>, statement by statement: the two property reads (line
  83 throws on \<open>null\<close>), the coercion of the duration (line 85 may throw), the three
  tests, the generic error, the minutes, the midnight test, the slot. The last branch of
  the \<open>case\<close> is dead code of the model: behind the three tests the time splits into two
  digit strings and the duration is a finite integer (lemmas \<open>toMinutes_valid\<close> and
  \<open>valid_duration_iff\<close>).\<close>

definition parseAndValidateSlot :: "body \<Rightarrow> validation" where
  "parseAndValidateSlot body =
     (case body of
        JsonNull \<Rightarrow> Throws TypeError
      | JsonValue b \<Rightarrow>
          (let date_s = str_or_empty (b_date b);
               time_s = str_or_empty (b_time b)
           in case b_duration b of
                NotCoercible \<Rightarrow> Throws TypeError
              | Coerced duration_n \<Rightarrow>
                  (let isValidDate = test DATE_RE date_s;
                       isValidTime = test TIME_RE time_s;
                       isValidDuration = (isInteger duration_n \<and> gt_zero duration_n)
                   in if \<not> isValidDate \<or> \<not> isValidTime \<or> \<not> isValidDuration
                      then Rejected INVALID
                      else (case (toMinutes time_s, duration_n) of
                              (Some start_m, Finite q) \<Rightarrow>
                                (let end_m = start_m + \<lfloor>q\<rfloor>
                                 in if end_m > 24 * 60 then Rejected MIDNIGHT
                                    else Accepted \<lparr>date = date_s, time = time_s,
                                           duration = \<lfloor>q\<rfloor>,
                                           startMinutes = start_m, endMinutes = end_m\<rparr>)
                            | _ \<Rightarrow> Rejected ''unreachable''))))"

definition hasOverlap :: "int \<Rightarrow> int \<Rightarrow> int \<Rightarrow> int \<Rightarrow> bool" where
  "hasOverlap aStart aEnd bStart bEnd = (aStart < bEnd \<and> aEnd > bStart)"

subsection \<open>The data file\<close>

text \<open>What \<open>JSON.parse\<close> returns for the file's text, as far as \<open>Array.isArray\<close> and
  the handlers look at it: an array, whose elements are bookings, or any other value.\<close>

datatype json = JArray "booking list" | NotArray

text \<open>The text of the file: refused by \<open>JSON.parse\<close> (which then throws a
  \<open>SyntaxError\<close>), or parsed to a value.\<close>

datatype content = Unparsable | Parsed json

text \<open>The state the handlers work on: the data file (\<open>None\<close> while it does not exist)
  and, as a trace, the arguments of the calls of \<open>writeBookings\<close>, the latest first.\<close>

record world =
  data_file :: "content option"
  saved :: "booking list list"

definition ensureDataFile :: "world \<Rightarrow> world" where
  "ensureDataFile w = (if data_file w = None then w\<lparr>data_file := Some (Parsed (JArray []))\<rparr> else w)"

definition readBookings :: "world \<Rightarrow> (exn + booking list) \<times> world" where
  "readBookings w =
     (let w1 = ensureDataFile w
      in case data_file w1 of
           None \<Rightarrow> (Inl ENOENT, w1)
         | Some Unparsable \<Rightarrow> (Inl SyntaxError, w1)
         | Some (Parsed parsed) \<Rightarrow>
             (Inr (case parsed of JArray bs \<Rightarrow> bs | NotArray \<Rightarrow> []), w1))"

definition writeBookings :: "booking list \<Rightarrow> world \<Rightarrow> world" where
  "writeBookings bookings w = w\<lparr>data_file := Some (Parsed (JArray bookings)), saved := bookings # saved w\<rparr>"

subsection \<open>The request handler\<close>

text \<open>What \<open>sendJson\<close> is given as its body.\<close>

datatype reply =
    Bookings "booking list"          \<comment> \<open>\<open>{ bookings }\<close>\<close>
  | Created booking                  \<comment> \<open>\<open>{ booking }\<close>\<close>
  | Error string                     \<comment> \<open>\<open>{ error }\<close>\<close>
  | Conflict string booking          \<comment> \<open>\<open>{ error, conflict }\<close>\<close>
  | ErrorMessage exn                 \<comment> \<open>\<open>{ error: error.message }\<close> of a caught exception\<close>
  | Ok                               \<comment> \<open>\<open>{ ok: true }\<close>\<close>

text \<open>The outcome of a request: a call of \<open>sendJson\<close> with a status, or an exception
  that leaves \<open>handleApi\<close> with no response sent.\<close>

datatype response = Json nat reply | Threw exn

text \<open>\<open>Array.prototype.sort\<close> with a comparison function. The sort is stable; the
  model is the insertion sort that puts an element before the first later one it does not
  compare greater than, which is what every stable sort returns when the comparison
  function orders the elements consistently.\<close>

fun insert_by :: "('a \<Rightarrow> 'a \<Rightarrow> int) \<Rightarrow> 'a \<Rightarrow> 'a list \<Rightarrow> 'a list" where
  "insert_by cmp x [] = [x]"
| "insert_by cmp x (y # ys) = (if cmp x y \<le> 0 then x # y # ys else y # insert_by cmp x ys)"

definition sort_by :: "('a \<Rightarrow> 'a \<Rightarrow> int) \<Rightarrow> 'a list \<Rightarrow> 'a list" where
  "sort_by cmp xs = foldr (insert_by cmp) xs []"

text \<open>The comparison function of the listing; \<open>lc\<close> is \<open>localeCompare\<close>.\<close>

definition compareBookings :: "(string \<Rightarrow> string \<Rightarrow> int) \<Rightarrow> booking \<Rightarrow> booking \<Rightarrow> int" where
  "compareBookings lc a b =
     (if date a = date b then startMinutes a - startMinutes b else lc (date a) (date b))"

text \<open>\<open>GET /api/bookings\<close>. The array that is sorted is the one \<open>readBookings\<close> has
  just built; nothing is written.\<close>

definition handleApi_GET :: "(string \<Rightarrow> string \<Rightarrow> int) \<Rightarrow> world \<Rightarrow> response \<times> world" where
  "handleApi_GET lc w =
     (case readBookings w of
        (Inl e, w1) \<Rightarrow> (Threw e, w1)
      | (Inr bookings, w1) \<Rightarrow> (Json 200 (Bookings (sort_by (compareBookings lc) bookings)), w1))"

text \<open>The predicate of \<open>bookings.find\<close> in the creation of a booking.\<close>

definition conflictsWith :: "slot \<Rightarrow> booking \<Rightarrow> bool" where
  "conflictsWith s existing =
     (date existing = date s
      \<and> hasOverlap (startMinutes s) (endMinutes s) (startMinutes existing) (endMinutes existing))"

definition OVERLAPS :: string where
  "OVERLAPS = ''Requested slot overlaps with an existing booking.''"

definition NOT_FOUND :: string where
  "NOT_FOUND = ''Booking not found.''"

text \<open>\<open>POST /api/bookings\<close>, from the parsed request body on: the function given to
  \<open>then\<close>, and \<open>catch\<close> for the exception the validator or \<open>readBookings\<close> may throw (its
  message is not \<open>'Payload too large'\<close>, so the status is 400). \<open>uuid\<close> is the value of
  \<open>randomUUID()\<close> and \<open>now\<close> that of \<open>new Date().toISOString()\<close>.\<close>

definition handleApi_POST :: "body \<Rightarrow> string \<Rightarrow> string \<Rightarrow> world \<Rightarrow> response \<times> world" where
  "handleApi_POST b uuid now w =
     (case parseAndValidateSlot b of
        Throws e \<Rightarrow> (Json 400 (ErrorMessage e), w)
      | Rejected err \<Rightarrow> (Json 400 (Error err), w)
      | Accepted s \<Rightarrow>
          (case readBookings w of
             (Inl e, w1) \<Rightarrow> (Json 400 (ErrorMessage e), w1)
           | (Inr bookings, w1) \<Rightarrow>
               (case find (conflictsWith s) bookings of
                  Some conflict \<Rightarrow> (Json 409 (Conflict OVERLAPS conflict), w1)
                | None \<Rightarrow>
                    (let booking = \<lparr>date = date s, time = time s, duration = duration s,
                                     startMinutes = startMinutes s, endMinutes = endMinutes s,
                                     ident = uuid, createdAt = now\<rparr>
                     in (Json 201 (Created booking), writeBookings (bookings @ [booking]) w1)))))"

text \<open>\<open>DELETE /api/bookings/:id\<close>, from the decoded \<open>bookingId\<close> on.\<close>

definition handleApi_DELETE :: "string \<Rightarrow> world \<Rightarrow> response \<times> world" where
  "handleApi_DELETE bookingId w =
     (case readBookings w of
        (Inl e, w1) \<Rightarrow> (Threw e, w1)
      | (Inr bookings, w1) \<Rightarrow>
          (let next = filter (\<lambda>item. ident item \<noteq> bookingId) bookings
           in if length next = length bookings then (Json 404 (Error NOT_FOUND), w1)
              else (Json 200 Ok, writeBookings next w1)))"

subsection \<open>The invariant of the derived minutes\<close>

text \<open>The data model's invariant on the minutes of a slot or of a booking.\<close>

definition minutes_invariant :: "'a slot_scheme \<Rightarrow> bool" where
  "minutes_invariant s =
     (0 \<le> startMinutes s \<and> startMinutes s < endMinutes s \<and> endMinutes s \<le> 1440
      \<and> toMinutes (time s) = Some (startMinutes s)
      \<and> endMinutes s = startMinutes s + duration s)"

subsection \<open>The words of the specification\<close>



text \<open>A comparison function with that property, for running the listing.\<close>

definition compare_code_units :: "string \<Rightarrow> string \<Rightarrow> int" where
  "compare_code_units x y = (if x < y then - 1 else if y < x then 1 else 0)"

text \<open>A comparison function that treats letters as the collation behind \<open>localeCompare\<close>
  does: the letter decides first and its case second, lower case first, so that \<open>b\<close> comes
  before \<open>C\<close>, which the character-wise comparison puts first. Strings without capital
  letters are compared character by character.\<close>

definition fold_case :: "char \<Rightarrow> char" where
  "fold_case c =
     (if 65 \<le> (of_char c :: nat) \<and> (of_char c :: nat) \<le> 90
      then char_of ((of_char c :: nat) + 32) else c)"

definition compare_letters_first :: "string \<Rightarrow> string \<Rightarrow> int" where
  "compare_letters_first x y =
     (if map fold_case x < map fold_case y then - 1
      else if map fold_case y < map fold_case x then 1
      else if y < x then - 1 else if x < y then 1 else 0)"

text \<open>A booking that matches a slot's normalized fields.\<close>

definition same_fields :: "slot \<Rightarrow> booking \<Rightarrow> bool" where
  "same_fields s x =
     (date x = date s \<and> time x = time s \<and> duration x = duration s
      \<and> startMinutes x = startMinutes s \<and> endMinutes x = endMinutes s)"


section \<open>Properties\<close>

subsection \<open>The validator\<close>

lemma test_Nil: "test [] s = (s = [])"
  by (cases s) auto

lemma test_Cons: "test (a # as) s = (\<exists>c cs. s = c # cs \<and> atom_matches a c \<and> test as cs)"
  by (cases s) auto

lemma test_TIME_RE:
  "test TIME_RE t =
     (\<exists>a b c d. t = [a, b, CHR '':'', c, d] \<and> is_digit a \<and> is_digit b \<and> is_digit c \<and> is_digit d)"
  unfolding TIME_RE_def by (auto simp: test_Nil test_Cons numeral_2_eq_2)


lemma is_digit_not_colon: "is_digit c \<Longrightarrow> c \<noteq> CHR '':''"
  by (auto simp: is_digit_def)

lemma digit_val_range: "is_digit c \<Longrightarrow> 0 \<le> digit_val c \<and> digit_val c \<le> 9"
  by (auto simp: is_digit_def digit_val_def)

lemma toMinutes_digits:
  assumes "is_digit a" "is_digit b" "is_digit c" "is_digit d"
  shows "toMinutes [a, b, CHR '':'', c, d] =
           Some ((10 * digit_val a + digit_val b) * 60 + (10 * digit_val c + digit_val d))"
  using assms by (simp add: toMinutes_def split_def Number_str_def is_digit_not_colon)

lemma toMinutes_valid:
  assumes "test TIME_RE t"
  shows "\<exists>m. toMinutes t = Some m \<and> 0 \<le> m"
proof -
  from assms obtain a b c d where t: "t = [a, b, CHR '':'', c, d]"
    and dg: "is_digit a" "is_digit b" "is_digit c" "is_digit d"
    by (auto simp: test_TIME_RE)
  have "0 \<le> (10 * digit_val a + digit_val b) * 60 + (10 * digit_val c + digit_val d)"
    using dg digit_val_range[of a] digit_val_range[of b] digit_val_range[of c]
      digit_val_range[of d] by simp
  then show ?thesis using toMinutes_digits[OF dg] t by simp
qed

lemma valid_duration_iff:
  "(isInteger n \<and> gt_zero n) = (\<exists>k::int. 0 < k \<and> n = Finite (of_int k))"
proof (cases n)
  case (Finite q)
  show ?thesis
  proof
    assume a: "isInteger n \<and> gt_zero n"
    from a Finite obtain k :: int where k: "q = of_int k"
      by (auto simp: isInteger_def)
    from a Finite k have "0 < k" by (simp add: gt_zero_def)
    with k Finite show "\<exists>k::int. 0 < k \<and> n = Finite (of_int k)" by blast
  next
    assume "\<exists>k::int. 0 < k \<and> n = Finite (of_int k)"
    then show "isInteger n \<and> gt_zero n" by (auto simp: isInteger_def gt_zero_def)
  qed
qed (simp_all add: isInteger_def gt_zero_def)

lemma parse_null: "parseAndValidateSlot JsonNull = Throws TypeError"
  by (simp add: parseAndValidateSlot_def)

lemma parse_not_coercible:
  assumes "b_duration p = NotCoercible"
  shows "parseAndValidateSlot (JsonValue p) = Throws TypeError"
  using assms by (simp add: parseAndValidateSlot_def Let_def)

lemma parse_invalid:
  assumes "b_duration p = Coerced n"
    and "\<not> (test DATE_RE (str_or_empty (b_date p)) \<and> test TIME_RE (str_or_empty (b_time p))
              \<and> isInteger n \<and> gt_zero n)"
  shows "parseAndValidateSlot (JsonValue p) = Rejected INVALID"
  using assms by (auto simp: parseAndValidateSlot_def Let_def)

lemma parse_valid:
  assumes "test DATE_RE (str_or_empty (b_date p))" "test TIME_RE (str_or_empty (b_time p))"
    "b_duration p = Coerced (Finite (of_int k))" "0 < k"
    "toMinutes (str_or_empty (b_time p)) = Some m"
  shows "parseAndValidateSlot (JsonValue p) =
           (if m + k > 1440 then Rejected MIDNIGHT
            else Accepted \<lparr>date = str_or_empty (b_date p), time = str_or_empty (b_time p), duration = k,
                      startMinutes = m, endMinutes = m + k\<rparr>)"
  using assms by (simp add: parseAndValidateSlot_def Let_def isInteger_def gt_zero_def)

lemma messages_differ: "INVALID \<noteq> MIDNIGHT"
  by (simp add: INVALID_def MIDNIGHT_def)

lemma parse_Accepted:
  assumes "parseAndValidateSlot b = Accepted s"
  shows "\<exists>p k m. b = JsonValue p \<and> 0 < k \<and> 0 \<le> m \<and> m + k \<le> 1440
           \<and> test DATE_RE (str_or_empty (b_date p)) \<and> test TIME_RE (str_or_empty (b_time p))
           \<and> b_duration p = Coerced (Finite (of_int k))
           \<and> toMinutes (str_or_empty (b_time p)) = Some m
           \<and> s = \<lparr>date = str_or_empty (b_date p), time = str_or_empty (b_time p), duration = k,
                    startMinutes = m, endMinutes = m + k\<rparr>"
proof -
  from assms obtain p where b: "b = JsonValue p"
    using parse_null by (cases b) auto
  from assms b obtain n where n: "b_duration p = Coerced n"
    using parse_not_coercible[of p] by (cases "b_duration p") auto
  have v: "test DATE_RE (str_or_empty (b_date p)) \<and> test TIME_RE (str_or_empty (b_time p))
              \<and> isInteger n \<and> gt_zero n"
    using assms b parse_invalid[OF n] by auto
  then obtain k where k: "n = Finite (of_int k)" "0 < k"
    using valid_duration_iff[of n] by auto
  from v obtain m where m: "toMinutes (str_or_empty (b_time p)) = Some m" "0 \<le> m"
    using toMinutes_valid by blast
  have d: "b_duration p = Coerced (Finite (of_int k))" using n k(1) by simp
  from parse_valid[OF _ _ d k(2) m(1)] v assms b have "m + k \<le> 1440 \<and>
     s = \<lparr>date = str_or_empty (b_date p), time = str_or_empty (b_time p), duration = k,
                    startMinutes = m, endMinutes = m + k\<rparr>"
    by (auto split: if_splits)
  with v b d k m show ?thesis by blast
qed

lemma post_Created:
  assumes "fst (handleApi_POST b uuid now w) = Json 201 (Created bk)"
  shows "\<exists>s. parseAndValidateSlot b = Accepted s
           \<and> bk = \<lparr>date = date s, time = time s, duration = duration s,
                     startMinutes = startMinutes s, endMinutes = endMinutes s,
                     ident = uuid, createdAt = now\<rparr>"
  using assms
  by (auto simp: handleApi_POST_def Let_def split: validation.splits sum.splits prod.splits option.splits)

text \<open>
  Claim C3. Every slot the validator accepts, and so every booking a request creates from
  it, has \<open>0 \<le> startMinutes < endMinutes \<le> 1440\<close>, with \<open>startMinutes\<close> the value
  of \<open>toMinutes\<close> on its \<open>time\<close> and \<open>endMinutes = startMinutes + duration\<close>.
\<close>

theorem accepted_slot_minutes:
  assumes "parseAndValidateSlot b = Accepted s"
  shows "minutes_invariant s
         \<and> (\<forall>uuid now w bk. fst (handleApi_POST b uuid now w) = Json 201 (Created bk)
               \<longrightarrow> minutes_invariant bk)"
proof -
  from parse_Accepted[OF assms] obtain p :: properties and k m where km: "0 < k" "0 \<le> m" "m + k \<le> 1440"
    "toMinutes (str_or_empty (b_time p)) = Some m"
    "s = \<lparr>date = str_or_empty (b_date p), time = str_or_empty (b_time p), duration = k,
                    startMinutes = m, endMinutes = m + k\<rparr>"
    by blast
  then have inv: "minutes_invariant s" by (simp add: minutes_invariant_def)
  have "minutes_invariant bk" if "fst (handleApi_POST b uuid now w) = Json 201 (Created bk)"
    for uuid now w bk
    using post_Created[OF that] assms inv by (auto simp: minutes_invariant_def)
  with inv show ?thesis by blast
qed

theorem accepted_slot_minutes_witness:
  "parseAndValidateSlot (JsonValue \<lparr>b_date = Str ''2024-06-01'', b_time = Str ''09:00'', b_duration = Coerced (Finite 60)\<rparr>)
     = Accepted \<lparr>date = ''2024-06-01'', time = ''09:00'', duration = 60,
            startMinutes = 540, endMinutes = 600\<rparr>
   \<and> minutes_invariant \<lparr>date = ''2024-06-01'', time = ''09:00'', duration = 60,
            startMinutes = 540, endMinutes = 600\<rparr>
   \<and> fst (handleApi_POST (JsonValue \<lparr>b_date = Str ''2024-06-01'', b_time = Str ''09:00'', b_duration = Coerced (Finite 60)\<rparr>)
           ''id-1'' ''2024-05-30T10:00:00.000Z'' \<lparr>data_file = None, saved = []\<rparr>)
     = Json 201 (Created \<lparr>date = ''2024-06-01'', time = ''09:00'', duration = 60,
            startMinutes = 540, endMinutes = 600, ident = ''id-1'',
            createdAt = ''2024-05-30T10:00:00.000Z''\<rparr>)
   \<and> minutes_invariant \<lparr>date = ''2024-06-01'', time = ''09:00'', duration = 60,
            startMinutes = 540, endMinutes = 600, ident = ''id-1'',
            createdAt = ''2024-05-30T10:00:00.000Z''\<rparr>"
proof -
  have p: "parseAndValidateSlot (JsonValue \<lparr>b_date = Str ''2024-06-01'', b_time = Str ''09:00'', b_duration = Coerced (Finite 60)\<rparr>)
     = Accepted \<lparr>date = ''2024-06-01'', time = ''09:00'', duration = 60,
            startMinutes = 540, endMinutes = 600\<rparr>"
    by code_simp
  have c: "fst (handleApi_POST (JsonValue \<lparr>b_date = Str ''2024-06-01'', b_time = Str ''09:00'', b_duration = Coerced (Finite 60)\<rparr>)
           ''id-1'' ''2024-05-30T10:00:00.000Z'' \<lparr>data_file = None, saved = []\<rparr>)
     = Json 201 (Created \<lparr>date = ''2024-06-01'', time = ''09:00'', duration = 60,
            startMinutes = 540, endMinutes = 600, ident = ''id-1'',
            createdAt = ''2024-05-30T10:00:00.000Z''\<rparr>)"
    by code_simp
  from accepted_slot_minutes[OF p] p c show ?thesis by blast
qed

text \<open>
  Claim C4. When the date and the time match their patterns and the duration is a positive
  integer, the validator answers "Meeting cannot cross midnight." exactly when
  \<open>startMinutes + duration > 1440\<close> and returns the slot otherwise, so a slot that ends at
  \<open>1440\<close> is accepted: \<open>23:30\<close> for 30 minutes is accepted with end \<open>1440\<close>, and
  \<open>23:30\<close> for 31 minutes is refused.
\<close>

theorem midnight_boundary:
  assumes "test DATE_RE d" "test TIME_RE t" "0 < k"
  shows "(\<exists>m. toMinutes t = Some m
            \<and> parseAndValidateSlot (JsonValue \<lparr>b_date = Str d, b_time = Str t, b_duration = Coerced (Finite (of_int k))\<rparr>)
                = (if m + k > 1440 then Rejected ''Meeting cannot cross midnight.''
                   else Accepted \<lparr>date = d, time = t, duration = k,
                             startMinutes = m, endMinutes = m + k\<rparr>))
         \<and> parseAndValidateSlot (JsonValue \<lparr>b_date = Str ''2024-05-01'', b_time = Str ''23:30'', b_duration = Coerced (Finite 30)\<rparr>)
             = Accepted \<lparr>date = ''2024-05-01'', time = ''23:30'', duration = 30,
                     startMinutes = 1410, endMinutes = 1440\<rparr>
         \<and> parseAndValidateSlot (JsonValue \<lparr>b_date = Str ''2024-05-01'', b_time = Str ''23:30'', b_duration = Coerced (Finite 31)\<rparr>)
             = Rejected ''Meeting cannot cross midnight.''"
proof -
  from toMinutes_valid[OF assms(2)] obtain m where m: "toMinutes t = Some m" by blast
  have "parseAndValidateSlot (JsonValue \<lparr>b_date = Str d, b_time = Str t, b_duration = Coerced (Finite (of_int k))\<rparr>)
                = (if m + k > 1440 then Rejected ''Meeting cannot cross midnight.''
                   else Accepted \<lparr>date = d, time = t, duration = k,
                             startMinutes = m, endMinutes = m + k\<rparr>)"
    using parse_valid[of "\<lparr>b_date = Str d, b_time = Str t, b_duration = Coerced (Finite (of_int k))\<rparr>" k m]
      assms m by (simp add: str_or_empty_def MIDNIGHT_def)
  moreover have "parseAndValidateSlot (JsonValue \<lparr>b_date = Str ''2024-05-01'', b_time = Str ''23:30'', b_duration = Coerced (Finite 30)\<rparr>)
             = Accepted \<lparr>date = ''2024-05-01'', time = ''23:30'', duration = 30,
                     startMinutes = 1410, endMinutes = 1440\<rparr>"
    by code_simp
  moreover have "parseAndValidateSlot (JsonValue \<lparr>b_date = Str ''2024-05-01'', b_time = Str ''23:30'', b_duration = Coerced (Finite 31)\<rparr>)
             = Rejected ''Meeting cannot cross midnight.''"
    by code_simp
  ultimately show ?thesis using m by blast
qed

theorem midnight_boundary_witness:
  "test DATE_RE ''2024-05-01'' \<and> test TIME_RE ''23:00'' \<and> toMinutes ''23:00'' = Some 1380
   \<and> parseAndValidateSlot (JsonValue \<lparr>b_date = Str ''2024-05-01'', b_time = Str ''23:00'', b_duration = Coerced (Finite 60)\<rparr>)
        = Accepted \<lparr>date = ''2024-05-01'', time = ''23:00'', duration = 60,
                startMinutes = 1380, endMinutes = 1440\<rparr>"
proof -
  have d: "test DATE_RE ''2024-05-01''" by code_simp
  have t: "test TIME_RE ''23:00''" by code_simp
  have m: "toMinutes ''23:00'' = Some 1380" by code_simp
  have k: "(0::int) < 60" by simp
  from midnight_boundary[OF d t k] m d t show ?thesis by simp
qed

lemma generic_error_iff:
  assumes "b_duration p = Coerced n"
  shows "(parseAndValidateSlot (JsonValue p) = Rejected ''Invalid date, time, or duration.'')
     = (\<not> test DATE_RE (str_or_empty (b_date p))
        \<or> \<not> test TIME_RE (str_or_empty (b_time p))
        \<or> \<not> (\<exists>k::int. 0 < k \<and> n = Finite (of_int k)))"
proof -
  let ?ok = "test DATE_RE (str_or_empty (b_date p)) \<and> test TIME_RE (str_or_empty (b_time p))
              \<and> isInteger n \<and> gt_zero n"
  have bad: "parseAndValidateSlot (JsonValue p) = Rejected INVALID" if "\<not> ?ok"
    using assms that by (rule parse_invalid)
  have good: "parseAndValidateSlot (JsonValue p) \<noteq> Rejected INVALID" if ok: "?ok"
  proof -
    from ok obtain k where k: "n = Finite (of_int k)" "0 < k"
      using valid_duration_iff[of n] by auto
    from ok obtain m where m: "toMinutes (str_or_empty (b_time p)) = Some m"
      using toMinutes_valid by blast
    have d: "b_duration p = Coerced (Finite (of_int k))" using assms k(1) by simp
    show ?thesis
      using parse_valid[OF _ _ d k(2) m] ok messages_differ by (auto split: if_splits)
  qed
  have "(parseAndValidateSlot (JsonValue p) = Rejected INVALID) = (\<not> ?ok)"
    using bad good by blast
  then show ?thesis
    using valid_duration_iff[of n] unfolding INVALID_def by blast
qed

lemma generic_error_not_positive_integer:
  assumes "b_duration p = Coerced n"
    and "n = NaN \<or> n = PosInfinity \<or> n = NegInfinity
        \<or> (\<exists>q. n = Finite q \<and> (q \<le> 0 \<or> q \<notin> \<int>))"
  shows "parseAndValidateSlot (JsonValue p) = Rejected ''Invalid date, time, or duration.''"
proof -
  have "\<not> (\<exists>k::int. 0 < k \<and> n = Finite (of_int k))"
    using assms(2) by auto
  with generic_error_iff[OF assms(1)] show ?thesis by blast
qed

text \<open>
  Claim C5 asks for the answer "Invalid date, time, or duration." on every input exactly
  when the date fails \<open>^\d{4}-\d{2}-\d{2}$\<close>, or the time fails \<open>^\d{2}:\d{2}$\<close>, or the
  coerced duration is not a positive integer. The source gives it so on every body whose
  properties can be read and whose duration \<open>Number\<close> converts (lemmas \<open>generic_error_iff\<close>
  and \<open>generic_error_not_positive_integer\<close>). On the body \<open>null\<close> the read of
  \<open>body.date\<close> throws, and on a duration without a primitive value \<open>Number\<close> throws: the
  validator returns nothing, and the request is answered 400 with the message of the
  \<open>TypeError\<close> in place of the generic one.
\<close>

theorem validator_throws_on_null_body:
  "parseAndValidateSlot JsonNull = Throws TypeError
   \<and> handleApi_POST JsonNull ''id-1'' ''2024-05-30T10:00:00.000Z'' \<lparr>data_file = None, saved = []\<rparr>
       = (Json 400 (ErrorMessage TypeError), \<lparr>data_file = None, saved = []\<rparr>)
   \<and> parseAndValidateSlot
         (JsonValue \<lparr>b_date = Str ''2024-05-01'', b_time = Str ''10:00'', b_duration = NotCoercible\<rparr>)
       = Throws TypeError
   \<and> handleApi_POST
         (JsonValue \<lparr>b_date = Str ''2024-05-01'', b_time = Str ''10:00'', b_duration = NotCoercible\<rparr>)
         ''id-1'' ''2024-05-30T10:00:00.000Z'' \<lparr>data_file = None, saved = []\<rparr>
       = (Json 400 (ErrorMessage TypeError), \<lparr>data_file = None, saved = []\<rparr>)"
  by (simp add: parseAndValidateSlot_def handleApi_POST_def Let_def)

theorem validator_throws_on_null_body_witness:
  "parseAndValidateSlot JsonNull \<noteq> Rejected ''Invalid date, time, or duration.''
   \<and> parseAndValidateSlot
         (JsonValue \<lparr>b_date = Str ''2024-05-01'', b_time = Str ''10:00'', b_duration = NotCoercible\<rparr>)
       \<noteq> Rejected ''Invalid date, time, or duration.''
   \<and> fst (handleApi_POST JsonNull ''id-1'' ''2024-05-30T10:00:00.000Z'' \<lparr>data_file = None, saved = []\<rparr>)
       \<noteq> Json 400 (Error ''Invalid date, time, or duration.'')"
  using validator_throws_on_null_body by simp

subsection \<open>The booking store\<close>

lemma readBookings_Inr:
  assumes "fst (readBookings w) = Inr bs"
  shows "readBookings w = (Inr bs, ensureDataFile w)"
    and "readBookings (ensureDataFile w) = (Inr bs, ensureDataFile w)"
    and "saved (ensureDataFile w) = saved w"
  using assms
  by (auto simp: readBookings_def ensureDataFile_def Let_def
      split: option.splits content.splits json.splits if_splits)

lemma readBookings_writeBookings:
  "readBookings (writeBookings bs w) = (Inr bs, writeBookings bs w)"
  by (simp add: readBookings_def writeBookings_def ensureDataFile_def)

lemma ensureDataFile_writeBookings: "ensureDataFile (writeBookings bs w) = writeBookings bs w"
  by (simp add: writeBookings_def ensureDataFile_def)

lemma saved_writeBookings: "saved (writeBookings bs w) = bs # saved w"
  by (simp add: writeBookings_def)

lemma conflictsWith_iff:
  "conflictsWith s e =
     (date e = date s \<and> startMinutes s < endMinutes e \<and> endMinutes s > startMinutes e)"
  by (simp add: conflictsWith_def hasOverlap_def)

lemma post_valid:
  assumes "parseAndValidateSlot b = Accepted s" "fst (readBookings w) = Inr bs"
  shows "handleApi_POST b uuid now w =
           (case find (conflictsWith s) bs of
              Some c \<Rightarrow> (Json 409 (Conflict OVERLAPS c), ensureDataFile w)
            | None \<Rightarrow>
                (Json 201 (Created \<lparr>date = date s, time = time s, duration = duration s,
                     startMinutes = startMinutes s, endMinutes = endMinutes s,
                     ident = uuid, createdAt = now\<rparr>),
                 writeBookings (bs @ [\<lparr>date = date s, time = time s, duration = duration s,
                     startMinutes = startMinutes s, endMinutes = endMinutes s,
                     ident = uuid, createdAt = now\<rparr>]) (ensureDataFile w)))"
  using assms(1) readBookings_Inr(1)[OF assms(2)]
  by (simp add: handleApi_POST_def Let_def split: option.splits)

lemma delete_loaded:
  assumes "fst (readBookings w) = Inr bs"
  shows "handleApi_DELETE i w =
           (if length (filter (\<lambda>x. ident x \<noteq> i) bs) = length bs
            then (Json 404 (Error NOT_FOUND), ensureDataFile w)
            else (Json 200 Ok, writeBookings (filter (\<lambda>x. ident x \<noteq> i) bs) (ensureDataFile w)))"
  using readBookings_Inr(1)[OF assms] by (simp add: handleApi_DELETE_def Let_def)

lemma get_loaded:
  assumes "fst (readBookings w) = Inr bs"
  shows "handleApi_GET lc w = (Json 200 (Bookings (sort_by (compareBookings lc) bs)), ensureDataFile w)"
  using readBookings_Inr(1)[OF assms] by (simp add: handleApi_GET_def)

lemma filter_length_iff:
  "(length (filter (\<lambda>x. ident x \<noteq> i) bs) = length bs) = (\<not> (\<exists>x\<in>set bs. ident x = i))"
proof (cases "\<exists>x\<in>set bs. ident x = i")
  case True
  then obtain x where "x \<in> set bs" "\<not> ident x \<noteq> i" by blast
  then have "length (filter (\<lambda>x. ident x \<noteq> i) bs) < length bs"
    by (rule length_filter_less)
  with True show ?thesis by simp
next
  case False
  then have "filter (\<lambda>x. ident x \<noteq> i) bs = bs" by (simp add: filter_id_conv)
  with False show ?thesis by simp
qed

text \<open>
  Claim C2. For a validated slot and a loaded collection, the creation answers 409 with a
  booking of the collection exactly when some booking of the collection has the same date
  string and \<open>newStart < existingEnd \<and> newEnd > existingStart\<close>, and otherwise creates
  the booking. A booking that ends at the minute the other starts never conflicts, and
  bookings with different date strings never conflict.
\<close>

theorem create_conflict_iff:
  assumes "parseAndValidateSlot b = Accepted s" and "fst (readBookings w) = Inr bs"
  shows "((\<exists>c. fst (handleApi_POST b uuid now w)
               = Json 409 (Conflict ''Requested slot overlaps with an existing booking.'' c)
             \<and> c \<in> set bs)
          = (\<exists>e\<in>set bs. date e = date s
               \<and> startMinutes s < endMinutes e \<and> endMinutes s > startMinutes e))
       \<and> ((\<exists>e\<in>set bs. date e = date s
               \<and> startMinutes s < endMinutes e \<and> endMinutes s > startMinutes e)
           \<or> (\<exists>bk. fst (handleApi_POST b uuid now w) = Json 201 (Created bk)))
       \<and> (\<forall>e. endMinutes e = startMinutes s \<or> endMinutes s = startMinutes e
              \<longrightarrow> \<not> conflictsWith s e)
       \<and> (\<forall>e. date e \<noteq> date s \<longrightarrow> \<not> conflictsWith s e)"
proof -
  let ?ov = "\<lambda>e. date e = date s \<and> startMinutes s < endMinutes e \<and> endMinutes s > startMinutes e"
  note post = post_valid[OF assms, of uuid now]
  have one: "(\<exists>c. fst (handleApi_POST b uuid now w) = Json 409 (Conflict OVERLAPS c) \<and> c \<in> set bs)
          = (\<exists>e\<in>set bs. ?ov e)"
  proof (cases "find (conflictsWith s) bs")
    case None
    then have "\<not> (\<exists>e\<in>set bs. ?ov e)" by (auto simp: find_None_iff conflictsWith_iff)
    moreover have "\<not> (\<exists>c. fst (handleApi_POST b uuid now w) = Json 409 (Conflict OVERLAPS c) \<and> c \<in> set bs)"
      using post None by simp
    ultimately show ?thesis by blast
  next
    case (Some c)
    then have "c \<in> set bs \<and> ?ov c"
      by (auto simp: find_Some_iff conflictsWith_iff)
    moreover have "fst (handleApi_POST b uuid now w) = Json 409 (Conflict OVERLAPS c)"
      using post Some by simp
    ultimately show ?thesis by blast
  qed
  have two: "(\<exists>e\<in>set bs. ?ov e) \<or> (\<exists>bk. fst (handleApi_POST b uuid now w) = Json 201 (Created bk))"
  proof (cases "find (conflictsWith s) bs")
    case None
    then show ?thesis using post by simp
  next
    case (Some c)
    then show ?thesis by (auto simp: find_Some_iff conflictsWith_iff)
  qed
  have three: "\<forall>e. endMinutes e = startMinutes s \<or> endMinutes s = startMinutes e
              \<longrightarrow> \<not> conflictsWith s e"
    by (auto simp: conflictsWith_iff)
  have four: "\<forall>e. date e \<noteq> date s \<longrightarrow> \<not> conflictsWith s e"
    by (simp add: conflictsWith_iff)
  from one two three four show ?thesis unfolding OVERLAPS_def by blast
qed

theorem create_conflict_iff_witness:
  "parseAndValidateSlot (JsonValue \<lparr>b_date = Str ''2024-06-01'', b_time = Str ''09:30'', b_duration = Coerced (Finite 30)\<rparr>)
     = Accepted \<lparr>date = ''2024-06-01'', time = ''09:30'', duration = 30, startMinutes = 570, endMinutes = 600\<rparr>
   \<and> fst (readBookings \<lparr>data_file = Some (Parsed (JArray [\<lparr>date = ''2024-06-01'', time = ''09:00'', duration = 60, startMinutes = 540, endMinutes = 600, ident = ''id-1'', createdAt = ''2024-05-30T10:00:00.000Z''\<rparr>])), saved = []\<rparr>)
     = Inr [\<lparr>date = ''2024-06-01'', time = ''09:00'', duration = 60, startMinutes = 540, endMinutes = 600, ident = ''id-1'', createdAt = ''2024-05-30T10:00:00.000Z''\<rparr>]
   \<and> (\<exists>c. fst (handleApi_POST (JsonValue \<lparr>b_date = Str ''2024-06-01'', b_time = Str ''09:30'', b_duration = Coerced (Finite 30)\<rparr>)
                ''id-2'' ''2024-05-31T10:00:00.000Z''
                \<lparr>data_file = Some (Parsed (JArray [\<lparr>date = ''2024-06-01'', time = ''09:00'', duration = 60, startMinutes = 540, endMinutes = 600, ident = ''id-1'', createdAt = ''2024-05-30T10:00:00.000Z''\<rparr>])), saved = []\<rparr>)
             = Json 409 (Conflict ''Requested slot overlaps with an existing booking.'' c)
           \<and> c \<in> set [\<lparr>date = ''2024-06-01'', time = ''09:00'', duration = 60, startMinutes = 540, endMinutes = 600, ident = ''id-1'', createdAt = ''2024-05-30T10:00:00.000Z''\<rparr>])"
proof -
  let ?B = "(JsonValue \<lparr>b_date = Str ''2024-06-01'', b_time = Str ''09:30'', b_duration = Coerced (Finite 30)\<rparr>)"
  let ?S = "\<lparr>date = ''2024-06-01'', time = ''09:30'', duration = 30, startMinutes = 570, endMinutes = 600\<rparr>"
  let ?b1 = "\<lparr>date = ''2024-06-01'', time = ''09:00'', duration = 60, startMinutes = 540, endMinutes = 600, ident = ''id-1'', createdAt = ''2024-05-30T10:00:00.000Z''\<rparr>"
  let ?W = "\<lparr>data_file = Some (Parsed (JArray [\<lparr>date = ''2024-06-01'', time = ''09:00'', duration = 60, startMinutes = 540, endMinutes = 600, ident = ''id-1'', createdAt = ''2024-05-30T10:00:00.000Z''\<rparr>])), saved = []\<rparr>"
  have p: "parseAndValidateSlot ?B = Accepted ?S" by code_simp
  have r: "fst (readBookings ?W) = Inr [?b1]"
    by (simp add: readBookings_def ensureDataFile_def)
  have e: "\<exists>e\<in>set [?b1]. date e = date ?S
               \<and> startMinutes ?S < endMinutes e \<and> endMinutes ?S > startMinutes e"
    by simp
  from create_conflict_iff[OF p r, of "''id-2''" "''2024-05-31T10:00:00.000Z''"] e
  have "\<exists>c. fst (handleApi_POST ?B ''id-2'' ''2024-05-31T10:00:00.000Z'' ?W)
             = Json 409 (Conflict ''Requested slot overlaps with an existing booking.'' c) \<and> c \<in> set [?b1]"
    by blast
  with p r show ?thesis by blast
qed

text \<open>
  Claim C10. When the collection holds a booking that conflicts with the slot and none
  before it in storage order does, the 409 answer carries that booking, whatever follows
  it in the collection.
\<close>

theorem conflict_is_first_in_storage_order:
  assumes "parseAndValidateSlot b = Accepted s" and "fst (readBookings w) = Inr (pre @ c # post)"
    and "conflictsWith s c" and "\<forall>e\<in>set pre. \<not> conflictsWith s e"
  shows "fst (handleApi_POST b uuid now w)
           = Json 409 (Conflict ''Requested slot overlaps with an existing booking.'' c)"
proof -
  have "find (conflictsWith s) (pre @ c # post) = Some c"
    using assms(3,4) by (induction pre) auto
  then show ?thesis
    using post_valid[OF assms(1,2), of uuid now] by (simp add: OVERLAPS_def)
qed

theorem conflict_is_first_in_storage_order_witness:
  "parseAndValidateSlot (JsonValue \<lparr>b_date = Str ''2024-06-01'', b_time = Str ''09:15'', b_duration = Coerced (Finite 60)\<rparr>)
     = Accepted \<lparr>date = ''2024-06-01'', time = ''09:15'', duration = 60, startMinutes = 555, endMinutes = 615\<rparr>
   \<and> fst (readBookings \<lparr>data_file = Some (Parsed (JArray [\<lparr>date = ''2024-06-01'', time = ''09:30'', duration = 60, startMinutes = 570, endMinutes = 630, ident = ''id-0'', createdAt = ''2024-05-29T10:00:00.000Z''\<rparr>, \<lparr>date = ''2024-06-01'', time = ''09:00'', duration = 60, startMinutes = 540, endMinutes = 600, ident = ''id-1'', createdAt = ''2024-05-30T10:00:00.000Z''\<rparr>])), saved = []\<rparr>)
     = Inr [\<lparr>date = ''2024-06-01'', time = ''09:30'', duration = 60, startMinutes = 570, endMinutes = 630, ident = ''id-0'', createdAt = ''2024-05-29T10:00:00.000Z''\<rparr>,
            \<lparr>date = ''2024-06-01'', time = ''09:00'', duration = 60, startMinutes = 540, endMinutes = 600, ident = ''id-1'', createdAt = ''2024-05-30T10:00:00.000Z''\<rparr>]
   \<and> conflictsWith \<lparr>date = ''2024-06-01'', time = ''09:15'', duration = 60, startMinutes = 555, endMinutes = 615\<rparr>
         \<lparr>date = ''2024-06-01'', time = ''09:30'', duration = 60, startMinutes = 570, endMinutes = 630, ident = ''id-0'', createdAt = ''2024-05-29T10:00:00.000Z''\<rparr>
   \<and> conflictsWith \<lparr>date = ''2024-06-01'', time = ''09:15'', duration = 60, startMinutes = 555, endMinutes = 615\<rparr>
         \<lparr>date = ''2024-06-01'', time = ''09:00'', duration = 60, startMinutes = 540, endMinutes = 600, ident = ''id-1'', createdAt = ''2024-05-30T10:00:00.000Z''\<rparr>
   \<and> fst (handleApi_POST (JsonValue \<lparr>b_date = Str ''2024-06-01'', b_time = Str ''09:15'', b_duration = Coerced (Finite 60)\<rparr>)
                ''id-2'' ''2024-05-31T10:00:00.000Z''
                \<lparr>data_file = Some (Parsed (JArray [\<lparr>date = ''2024-06-01'', time = ''09:30'', duration = 60, startMinutes = 570, endMinutes = 630, ident = ''id-0'', createdAt = ''2024-05-29T10:00:00.000Z''\<rparr>, \<lparr>date = ''2024-06-01'', time = ''09:00'', duration = 60, startMinutes = 540, endMinutes = 600, ident = ''id-1'', createdAt = ''2024-05-30T10:00:00.000Z''\<rparr>])), saved = []\<rparr>)
       = Json 409 (Conflict ''Requested slot overlaps with an existing booking.''
           \<lparr>date = ''2024-06-01'', time = ''09:30'', duration = 60, startMinutes = 570, endMinutes = 630, ident = ''id-0'', createdAt = ''2024-05-29T10:00:00.000Z''\<rparr>)"
proof -
  let ?B = "(JsonValue \<lparr>b_date = Str ''2024-06-01'', b_time = Str ''09:15'', b_duration = Coerced (Finite 60)\<rparr>)"
  let ?S = "\<lparr>date = ''2024-06-01'', time = ''09:15'', duration = 60, startMinutes = 555, endMinutes = 615\<rparr>"
  let ?b1 = "\<lparr>date = ''2024-06-01'', time = ''09:00'', duration = 60, startMinutes = 540, endMinutes = 600, ident = ''id-1'', createdAt = ''2024-05-30T10:00:00.000Z''\<rparr>"
  let ?b2 = "\<lparr>date = ''2024-06-01'', time = ''09:30'', duration = 60, startMinutes = 570, endMinutes = 630, ident = ''id-0'', createdAt = ''2024-05-29T10:00:00.000Z''\<rparr>"
  let ?W = "\<lparr>data_file = Some (Parsed (JArray [\<lparr>date = ''2024-06-01'', time = ''09:30'', duration = 60, startMinutes = 570, endMinutes = 630, ident = ''id-0'', createdAt = ''2024-05-29T10:00:00.000Z''\<rparr>, \<lparr>date = ''2024-06-01'', time = ''09:00'', duration = 60, startMinutes = 540, endMinutes = 600, ident = ''id-1'', createdAt = ''2024-05-30T10:00:00.000Z''\<rparr>])), saved = []\<rparr>"
  have p: "parseAndValidateSlot ?B = Accepted ?S" by code_simp
  have r: "fst (readBookings ?W) = Inr ([] @ ?b2 # [?b1])"
    by (simp add: readBookings_def ensureDataFile_def)
  have c2: "conflictsWith ?S ?b2" by (simp add: conflictsWith_def hasOverlap_def)
  have c1: "conflictsWith ?S ?b1" by (simp add: conflictsWith_def hasOverlap_def)
  have n: "\<forall>e\<in>set []. \<not> conflictsWith ?S e" by simp
  from conflict_is_first_in_storage_order[OF p r c2 n, of "''id-2''" "''2024-05-31T10:00:00.000Z''"]
    p r c1 c2
  show ?thesis by simp
qed

text \<open>
  Claim C6. On a loaded collection the deletion filters out the bookings with the given
  id. The length changes exactly when some booking has the id. Then the filtered
  collection is written and the answer is 200; otherwise nothing is written, the answer is
  404 "Booking not found." (a response, not an exception) and the collection is as it was.
\<close>

theorem delete_by_id:
  assumes "fst (readBookings w) = Inr bs"
  shows "(length (filter (\<lambda>x. ident x \<noteq> i) bs) \<noteq> length bs) = (\<exists>x\<in>set bs. ident x = i)
       \<and> (if \<exists>x\<in>set bs. ident x = i
          then fst (handleApi_DELETE i w) = Json 200 Ok
               \<and> saved (snd (handleApi_DELETE i w)) = filter (\<lambda>x. ident x \<noteq> i) bs # saved w
               \<and> fst (readBookings (snd (handleApi_DELETE i w))) = Inr (filter (\<lambda>x. ident x \<noteq> i) bs)
          else fst (handleApi_DELETE i w) = Json 404 (Error ''Booking not found.'')
               \<and> snd (handleApi_DELETE i w) = ensureDataFile w
               \<and> saved (snd (handleApi_DELETE i w)) = saved w
               \<and> fst (readBookings (snd (handleApi_DELETE i w))) = Inr bs)"
proof -
  note d = delete_loaded[OF assms, of i]
  note r = readBookings_Inr[OF assms]
  show ?thesis
  proof (cases "\<exists>x\<in>set bs. ident x = i")
    case True
    then have "length (filter (\<lambda>x. ident x \<noteq> i) bs) \<noteq> length bs"
      using filter_length_iff[of i bs] by simp
    then show ?thesis
      using True d r(3) by (simp add: readBookings_writeBookings saved_writeBookings)
  next
    case False
    then have "length (filter (\<lambda>x. ident x \<noteq> i) bs) = length bs"
      using filter_length_iff[of i bs] by simp
    then show ?thesis
      using False d r by (simp add: NOT_FOUND_def)
  qed
qed

theorem delete_by_id_witness:
  "fst (readBookings \<lparr>data_file = Some (Parsed (JArray [\<lparr>date = ''2024-06-01'', time = ''09:30'', duration = 60, startMinutes = 570, endMinutes = 630, ident = ''id-0'', createdAt = ''2024-05-29T10:00:00.000Z''\<rparr>, \<lparr>date = ''2024-06-01'', time = ''09:00'', duration = 60, startMinutes = 540, endMinutes = 600, ident = ''id-1'', createdAt = ''2024-05-30T10:00:00.000Z''\<rparr>])), saved = []\<rparr>)
     = Inr [\<lparr>date = ''2024-06-01'', time = ''09:30'', duration = 60, startMinutes = 570, endMinutes = 630, ident = ''id-0'', createdAt = ''2024-05-29T10:00:00.000Z''\<rparr>,
            \<lparr>date = ''2024-06-01'', time = ''09:00'', duration = 60, startMinutes = 540, endMinutes = 600, ident = ''id-1'', createdAt = ''2024-05-30T10:00:00.000Z''\<rparr>]
   \<and> fst (handleApi_DELETE ''id-0'' \<lparr>data_file = Some (Parsed (JArray [\<lparr>date = ''2024-06-01'', time = ''09:30'', duration = 60, startMinutes = 570, endMinutes = 630, ident = ''id-0'', createdAt = ''2024-05-29T10:00:00.000Z''\<rparr>, \<lparr>date = ''2024-06-01'', time = ''09:00'', duration = 60, startMinutes = 540, endMinutes = 600, ident = ''id-1'', createdAt = ''2024-05-30T10:00:00.000Z''\<rparr>])), saved = []\<rparr>) = Json 200 Ok
   \<and> saved (snd (handleApi_DELETE ''id-0'' \<lparr>data_file = Some (Parsed (JArray [\<lparr>date = ''2024-06-01'', time = ''09:30'', duration = 60, startMinutes = 570, endMinutes = 630, ident = ''id-0'', createdAt = ''2024-05-29T10:00:00.000Z''\<rparr>, \<lparr>date = ''2024-06-01'', time = ''09:00'', duration = 60, startMinutes = 540, endMinutes = 600, ident = ''id-1'', createdAt = ''2024-05-30T10:00:00.000Z''\<rparr>])), saved = []\<rparr>))
       = [[\<lparr>date = ''2024-06-01'', time = ''09:00'', duration = 60, startMinutes = 540, endMinutes = 600, ident = ''id-1'', createdAt = ''2024-05-30T10:00:00.000Z''\<rparr>]]
   \<and> fst (handleApi_DELETE ''id-7'' \<lparr>data_file = Some (Parsed (JArray [\<lparr>date = ''2024-06-01'', time = ''09:30'', duration = 60, startMinutes = 570, endMinutes = 630, ident = ''id-0'', createdAt = ''2024-05-29T10:00:00.000Z''\<rparr>, \<lparr>date = ''2024-06-01'', time = ''09:00'', duration = 60, startMinutes = 540, endMinutes = 600, ident = ''id-1'', createdAt = ''2024-05-30T10:00:00.000Z''\<rparr>])), saved = []\<rparr>) = Json 404 (Error ''Booking not found.'')
   \<and> snd (handleApi_DELETE ''id-7'' \<lparr>data_file = Some (Parsed (JArray [\<lparr>date = ''2024-06-01'', time = ''09:30'', duration = 60, startMinutes = 570, endMinutes = 630, ident = ''id-0'', createdAt = ''2024-05-29T10:00:00.000Z''\<rparr>, \<lparr>date = ''2024-06-01'', time = ''09:00'', duration = 60, startMinutes = 540, endMinutes = 600, ident = ''id-1'', createdAt = ''2024-05-30T10:00:00.000Z''\<rparr>])), saved = []\<rparr>)
       = \<lparr>data_file = Some (Parsed (JArray [\<lparr>date = ''2024-06-01'', time = ''09:30'', duration = 60, startMinutes = 570, endMinutes = 630, ident = ''id-0'', createdAt = ''2024-05-29T10:00:00.000Z''\<rparr>, \<lparr>date = ''2024-06-01'', time = ''09:00'', duration = 60, startMinutes = 540, endMinutes = 600, ident = ''id-1'', createdAt = ''2024-05-30T10:00:00.000Z''\<rparr>])), saved = []\<rparr>"
proof -
  let ?b1 = "\<lparr>date = ''2024-06-01'', time = ''09:00'', duration = 60, startMinutes = 540, endMinutes = 600, ident = ''id-1'', createdAt = ''2024-05-30T10:00:00.000Z''\<rparr>"
  let ?b2 = "\<lparr>date = ''2024-06-01'', time = ''09:30'', duration = 60, startMinutes = 570, endMinutes = 630, ident = ''id-0'', createdAt = ''2024-05-29T10:00:00.000Z''\<rparr>"
  let ?W = "\<lparr>data_file = Some (Parsed (JArray [\<lparr>date = ''2024-06-01'', time = ''09:30'', duration = 60, startMinutes = 570, endMinutes = 630, ident = ''id-0'', createdAt = ''2024-05-29T10:00:00.000Z''\<rparr>, \<lparr>date = ''2024-06-01'', time = ''09:00'', duration = 60, startMinutes = 540, endMinutes = 600, ident = ''id-1'', createdAt = ''2024-05-30T10:00:00.000Z''\<rparr>])), saved = []\<rparr>"
  have r: "fst (readBookings ?W) = Inr [?b2, ?b1]"
    by (simp add: readBookings_def ensureDataFile_def)
  have e: "ensureDataFile ?W = ?W" by (simp add: ensureDataFile_def)
  have y: "\<exists>x\<in>set [?b2, ?b1]. ident x = ''id-0''" by simp
  have n: "\<not> (\<exists>x\<in>set [?b2, ?b1]. ident x = ''id-7'')" by simp
  have f: "filter (\<lambda>x. ident x \<noteq> ''id-0'') [?b2, ?b1] = [?b1]" by simp
  from delete_by_id[OF r, of "''id-0''"] y f
  have a: "fst (handleApi_DELETE ''id-0'' ?W) = Json 200 Ok
      \<and> saved (snd (handleApi_DELETE ''id-0'' ?W)) = [[?b1]]"
    by simp
  from delete_by_id[OF r, of "''id-7''"] n e
  have b: "fst (handleApi_DELETE ''id-7'' ?W) = Json 404 (Error ''Booking not found.'')
      \<and> snd (handleApi_DELETE ''id-7'' ?W) = ?W"
    by simp
  from r a b show ?thesis by blast
qed

text \<open>
  Claim C9. The time pattern bounds neither component, so a time whose minutes are 60 or
  more is accepted whenever the end is at most \<open>1440\<close>, with
  \<open>startMinutes = hours * 60 + minutes\<close>: \<open>08:75\<close> gives \<open>555\<close>. A request with such a
  time, on a collection it does not conflict with, appends a booking with that time string
  to the collection and writes it: the collection loaded afterwards ends with it. So a
  request with \<open>08:75\<close> on an absent file is answered 201 and leaves the file holding a
  booking whose time is \<open>08:75\<close>.
\<close>

theorem minutes_of_sixty_or_more_accepted:
  assumes "test DATE_RE d" "is_digit h1" "is_digit h2" "is_digit m1" "is_digit m2" "0 < k"
    "(10 * digit_val h1 + digit_val h2) * 60 + (10 * digit_val m1 + digit_val m2) + k \<le> 1440"
  shows "parseAndValidateSlot (JsonValue \<lparr>b_date = Str d, b_time = Str [h1, h2, CHR '':'', m1, m2],
                    b_duration = Coerced (Finite (of_int k))\<rparr>)
           = Accepted \<lparr>date = d, time = [h1, h2, CHR '':'', m1, m2], duration = k,
                    startMinutes = (10 * digit_val h1 + digit_val h2) * 60 + (10 * digit_val m1 + digit_val m2),
                    endMinutes = (10 * digit_val h1 + digit_val h2) * 60 + (10 * digit_val m1 + digit_val m2) + k\<rparr>
         \<and> parseAndValidateSlot (JsonValue \<lparr>b_date = Str ''2024-05-01'', b_time = Str ''08:75'', b_duration = Coerced (Finite 30)\<rparr>)
           = Accepted \<lparr>date = ''2024-05-01'', time = ''08:75'', duration = 30,
                  startMinutes = 555, endMinutes = 585\<rparr>
         \<and> fst (handleApi_POST (JsonValue \<lparr>b_date = Str ''2024-05-01'', b_time = Str ''08:75'', b_duration = Coerced (Finite 30)\<rparr>)
                  uuid now \<lparr>data_file = None, saved = []\<rparr>)
           = Json 201 (Created \<lparr>date = ''2024-05-01'', time = ''08:75'', duration = 30,
                  startMinutes = 555, endMinutes = 585, ident = uuid, createdAt = now\<rparr>)
         \<and> (\<forall>w bs. fst (readBookings w) = Inr bs
                \<and> (\<forall>e\<in>set bs. \<not> conflictsWith \<lparr>date = d, time = [h1, h2, CHR '':'', m1, m2], duration = k,
                    startMinutes = (10 * digit_val h1 + digit_val h2) * 60 + (10 * digit_val m1 + digit_val m2),
                    endMinutes = (10 * digit_val h1 + digit_val h2) * 60 + (10 * digit_val m1 + digit_val m2) + k\<rparr> e)
              \<longrightarrow> fst (handleApi_POST (JsonValue \<lparr>b_date = Str d, b_time = Str [h1, h2, CHR '':'', m1, m2],
                    b_duration = Coerced (Finite (of_int k))\<rparr>) uuid now w)
                    = Json 201 (Created \<lparr>date = d, time = [h1, h2, CHR '':'', m1, m2], duration = k,
                    startMinutes = (10 * digit_val h1 + digit_val h2) * 60 + (10 * digit_val m1 + digit_val m2),
                    endMinutes = (10 * digit_val h1 + digit_val h2) * 60 + (10 * digit_val m1 + digit_val m2) + k,
                    ident = uuid, createdAt = now\<rparr>)
                \<and> fst (readBookings (snd (handleApi_POST (JsonValue \<lparr>b_date = Str d, b_time = Str [h1, h2, CHR '':'', m1, m2],
                    b_duration = Coerced (Finite (of_int k))\<rparr>) uuid now w)))
                    = Inr (bs @ [\<lparr>date = d, time = [h1, h2, CHR '':'', m1, m2], duration = k,
                    startMinutes = (10 * digit_val h1 + digit_val h2) * 60 + (10 * digit_val m1 + digit_val m2),
                    endMinutes = (10 * digit_val h1 + digit_val h2) * 60 + (10 * digit_val m1 + digit_val m2) + k,
                    ident = uuid, createdAt = now\<rparr>])
                \<and> saved (snd (handleApi_POST (JsonValue \<lparr>b_date = Str d, b_time = Str [h1, h2, CHR '':'', m1, m2],
                    b_duration = Coerced (Finite (of_int k))\<rparr>) uuid now w))
                    = (bs @ [\<lparr>date = d, time = [h1, h2, CHR '':'', m1, m2], duration = k,
                    startMinutes = (10 * digit_val h1 + digit_val h2) * 60 + (10 * digit_val m1 + digit_val m2),
                    endMinutes = (10 * digit_val h1 + digit_val h2) * 60 + (10 * digit_val m1 + digit_val m2) + k,
                    ident = uuid, createdAt = now\<rparr>]) # saved w)
         \<and> snd (handleApi_POST (JsonValue \<lparr>b_date = Str ''2024-05-01'', b_time = Str ''08:75'', b_duration = Coerced (Finite 30)\<rparr>)
                  uuid now \<lparr>data_file = None, saved = []\<rparr>)
           = \<lparr>data_file = Some (Parsed (JArray [\<lparr>date = ''2024-05-01'', time = ''08:75'', duration = 30,
                  startMinutes = 555, endMinutes = 585, ident = uuid, createdAt = now\<rparr>])),
              saved = [[\<lparr>date = ''2024-05-01'', time = ''08:75'', duration = 30,
                  startMinutes = 555, endMinutes = 585, ident = uuid, createdAt = now\<rparr>]]\<rparr>
         \<and> fst (readBookings (snd (handleApi_POST (JsonValue \<lparr>b_date = Str ''2024-05-01'', b_time = Str ''08:75'', b_duration = Coerced (Finite 30)\<rparr>)
                  uuid now \<lparr>data_file = None, saved = []\<rparr>)))
           = Inr [\<lparr>date = ''2024-05-01'', time = ''08:75'', duration = 30,
                  startMinutes = 555, endMinutes = 585, ident = uuid, createdAt = now\<rparr>]"
proof -
  let ?t = "[h1, h2, CHR '':'', m1, m2]"
  let ?gb = "(JsonValue \<lparr>b_date = Str d, b_time = Str [h1, h2, CHR '':'', m1, m2],
                    b_duration = Coerced (Finite (of_int k))\<rparr>)"
  let ?gs = "\<lparr>date = d, time = [h1, h2, CHR '':'', m1, m2], duration = k,
                    startMinutes = (10 * digit_val h1 + digit_val h2) * 60 + (10 * digit_val m1 + digit_val m2),
                    endMinutes = (10 * digit_val h1 + digit_val h2) * 60 + (10 * digit_val m1 + digit_val m2) + k\<rparr>"
  let ?gbk = "\<lparr>date = d, time = [h1, h2, CHR '':'', m1, m2], duration = k,
                    startMinutes = (10 * digit_val h1 + digit_val h2) * 60 + (10 * digit_val m1 + digit_val m2),
                    endMinutes = (10 * digit_val h1 + digit_val h2) * 60 + (10 * digit_val m1 + digit_val m2) + k,
                    ident = uuid, createdAt = now\<rparr>"
  let ?cb = "(JsonValue \<lparr>b_date = Str ''2024-05-01'', b_time = Str ''08:75'', b_duration = Coerced (Finite 30)\<rparr>)"
  let ?cbk = "\<lparr>date = ''2024-05-01'', time = ''08:75'', duration = 30,
                  startMinutes = 555, endMinutes = 585, ident = uuid, createdAt = now\<rparr>"
  let ?w0 = "\<lparr>data_file = None, saved = []\<rparr>"
  have t: "test TIME_RE ?t" using assms(2-5) by (auto simp: test_TIME_RE)
  have m: "toMinutes ?t = Some ((10 * digit_val h1 + digit_val h2) * 60 + (10 * digit_val m1 + digit_val m2))"
    using assms(2-5) by (rule toMinutes_digits)
  have one: "parseAndValidateSlot ?gb = Accepted ?gs"
    using parse_valid[of "\<lparr>b_date = Str d, b_time = Str ?t, b_duration = Coerced (Finite (of_int k))\<rparr>" k
        "(10 * digit_val h1 + digit_val h2) * 60 + (10 * digit_val m1 + digit_val m2)"]
      assms(1,6,7) t m by (simp add: str_or_empty_def)
  have two: "parseAndValidateSlot ?cb
           = Accepted \<lparr>date = ''2024-05-01'', time = ''08:75'', duration = 30,
                  startMinutes = 555, endMinutes = 585\<rparr>"
    by code_simp
  have post0: "handleApi_POST ?cb uuid now ?w0
           = (Json 201 (Created ?cbk),
              \<lparr>data_file = Some (Parsed (JArray [?cbk])), saved = [[?cbk]]\<rparr>)"
    by (simp add: handleApi_POST_def two readBookings_def ensureDataFile_def writeBookings_def
        Let_def)
  have three: "fst (handleApi_POST ?cb uuid now ?w0) = Json 201 (Created ?cbk)"
    using post0 by simp
  have five: "snd (handleApi_POST ?cb uuid now ?w0)
           = \<lparr>data_file = Some (Parsed (JArray [?cbk])), saved = [[?cbk]]\<rparr>"
    using post0 by simp
  have six: "fst (readBookings (snd (handleApi_POST ?cb uuid now ?w0))) = Inr [?cbk]"
    unfolding five by (simp add: readBookings_def ensureDataFile_def)
  have four: "fst (handleApi_POST ?gb uuid now w) = Json 201 (Created ?gbk)
                \<and> fst (readBookings (snd (handleApi_POST ?gb uuid now w))) = Inr (bs @ [?gbk])
                \<and> saved (snd (handleApi_POST ?gb uuid now w)) = (bs @ [?gbk]) # saved w"
    if r: "fst (readBookings w) = Inr bs" and n: "\<forall>e\<in>set bs. \<not> conflictsWith ?gs e"
    for w bs
  proof -
    have f: "find (conflictsWith ?gs) bs = None" using n by (simp add: find_None_iff)
    have "handleApi_POST ?gb uuid now w
            = (Json 201 (Created ?gbk), writeBookings (bs @ [?gbk]) (ensureDataFile w))"
      using post_valid[OF one r, of uuid now] f by simp
    then show ?thesis
      using readBookings_Inr(3)[OF r]
      by (simp add: readBookings_writeBookings saved_writeBookings)
  qed
  from one two three four five six show ?thesis by blast
qed

theorem minutes_of_sixty_or_more_accepted_witness:
  "test DATE_RE ''2024-02-31'' \<and> is_digit CHR ''1'' \<and> is_digit CHR ''0'' \<and> is_digit CHR ''9''
   \<and> parseAndValidateSlot (JsonValue \<lparr>b_date = Str ''2024-02-31'', b_time = Str ''10:99'', b_duration = Coerced (Finite 15)\<rparr>)
       = Accepted \<lparr>date = ''2024-02-31'', time = ''10:99'', duration = 15,
              startMinutes = 699, endMinutes = 714\<rparr>
   \<and> fst (readBookings (snd (handleApi_POST
         (JsonValue \<lparr>b_date = Str ''2024-02-31'', b_time = Str ''10:99'', b_duration = Coerced (Finite 15)\<rparr>)
         ''id-1'' ''2024-05-30T10:00:00.000Z'' \<lparr>data_file = None, saved = []\<rparr>)))
       = Inr [\<lparr>date = ''2024-02-31'', time = ''10:99'', duration = 15,
              startMinutes = 699, endMinutes = 714,
              ident = ''id-1'', createdAt = ''2024-05-30T10:00:00.000Z''\<rparr>]"
proof -
  have d: "test DATE_RE ''2024-02-31''" by code_simp
  have g: "is_digit CHR ''1''" "is_digit CHR ''0''" "is_digit CHR ''9''"
    by (simp_all add: is_digit_def)
  have k: "(0::int) < 15" by simp
  have b: "(10 * digit_val CHR ''1'' + digit_val CHR ''0'') * 60
            + (10 * digit_val CHR ''9'' + digit_val CHR ''9'') + 15 \<le> 1440"
    by (simp add: digit_val_def)
  have r: "fst (readBookings \<lparr>data_file = None, saved = []\<rparr>) = Inr []"
    by (simp add: readBookings_def ensureDataFile_def)
  note th = minutes_of_sixty_or_more_accepted[OF d g(1) g(2) g(3) g(3) k b,
      where uuid = "''id-1''" and now = "''2024-05-30T10:00:00.000Z''"]
  from th have p: "parseAndValidateSlot (JsonValue \<lparr>b_date = Str ''2024-02-31'', b_time = Str ''10:99'', b_duration = Coerced (Finite 15)\<rparr>)
       = Accepted \<lparr>date = ''2024-02-31'', time = ''10:99'', duration = 15,
              startMinutes = 699, endMinutes = 714\<rparr>"
    by (simp add: digit_val_def)
  note q = th[THEN conjunct2, THEN conjunct2, THEN conjunct2, THEN conjunct1, rule_format,
      of "\<lparr>data_file = None, saved = []\<rparr>" "[]"]
  from q r have s: "fst (readBookings (snd (handleApi_POST
         (JsonValue \<lparr>b_date = Str ''2024-02-31'', b_time = Str ''10:99'', b_duration = Coerced (Finite 15)\<rparr>)
         ''id-1'' ''2024-05-30T10:00:00.000Z'' \<lparr>data_file = None, saved = []\<rparr>)))
       = Inr [\<lparr>date = ''2024-02-31'', time = ''10:99'', duration = 15,
              startMinutes = 699, endMinutes = 714,
              ident = ''id-1'', createdAt = ''2024-05-30T10:00:00.000Z''\<rparr>]"
    by (simp add: digit_val_def)
  from d g p s show ?thesis by blast
qed

subsection \<open>The listing and the round trip\<close>


lemma mset_insert_by: "mset (insert_by cmp x ys) = add_mset x (mset ys)"
  by (induction ys) auto

lemma mset_sort_by: "mset (sort_by cmp xs) = mset xs"
  unfolding sort_by_def by (induction xs) (auto simp: mset_insert_by)

lemma set_sort_by: "set (sort_by cmp xs) = set xs"
  using mset_sort_by[of cmp xs] by (metis set_mset_mset)










lemma b_before_C: "compare_letters_first ''b'' ''C'' < 0"
  by code_simp




lemma mset_single_list: "mset xs = {#x#} \<Longrightarrow> xs = [x]"
  by (cases xs) auto

lemma same_fields_conflicts:
  assumes "same_fields s e" "startMinutes s < endMinutes s"
  shows "conflictsWith s e"
  using assms by (simp add: same_fields_def conflictsWith_iff)

text \<open>
  Claim C8. For a validated slot that conflicts with no booking of the loaded collection,
  and an id that no booking of the collection has: the creation succeeds; the listing
  after it holds exactly one booking with the slot's five fields, the created one; the
  deletion of its id succeeds; and the listing after that no longer holds it, holds the
  bookings of the collection and nothing else, and is the listing of the collection as
  it was before the creation.
\<close>

theorem create_list_delete_round_trip:
  assumes "parseAndValidateSlot b = Accepted s" and "fst (readBookings w) = Inr bs"
    and "\<forall>e\<in>set bs. \<not> conflictsWith s e" and "uuid \<notin> ident ` set bs"
    and "handleApi_POST b uuid now w = (r1, w1)" and "handleApi_GET lc w1 = (r2, w2)"
    and "handleApi_DELETE uuid w2 = (r3, w3)" and "handleApi_GET lc w3 = (r4, w4)"
  shows "\<exists>bk l1 l2. r1 = Json 201 (Created bk) \<and> ident bk = uuid \<and> same_fields s bk
           \<and> r2 = Json 200 (Bookings l1) \<and> filter (same_fields s) l1 = [bk]
           \<and> mset l1 = add_mset bk (mset bs)
           \<and> r3 = Json 200 Ok
           \<and> r4 = Json 200 (Bookings l2) \<and> bk \<notin> set l2 \<and> filter (same_fields s) l2 = []
           \<and> mset l2 = mset bs \<and> r4 = fst (handleApi_GET lc w)"
proof -
  let ?bk = "\<lparr>date = date s, time = time s, duration = duration s,
               startMinutes = startMinutes s, endMinutes = endMinutes s,
               ident = uuid, createdAt = now\<rparr>"
  let ?cmp = "compareBookings lc"
  let ?l1 = "sort_by ?cmp (bs @ [?bk])"
  let ?l2 = "sort_by ?cmp bs"
  have lt: "startMinutes s < endMinutes s"
    using parse_Accepted[OF assms(1)] by auto
  have none: "find (conflictsWith s) bs = None"
    using assms(3) by (simp add: find_None_iff)
  have nomatch: "filter (same_fields s) bs = []"
    using assms(3) same_fields_conflicts[OF _ lt] by (auto simp: filter_empty_conv)
  have fresh: "filter (\<lambda>x. ident x \<noteq> uuid) (bs @ [?bk]) = bs"
    using assms(4) by (auto simp: filter_id_conv)
  have sf: "same_fields s ?bk" by (simp add: same_fields_def)
  have p: "r1 = Json 201 (Created ?bk)" "w1 = writeBookings (bs @ [?bk]) (ensureDataFile w)"
    using post_valid[OF assms(1,2), of uuid now] assms(5) none by simp_all
  have rd1: "fst (readBookings w1) = Inr (bs @ [?bk])"
    using p(2) by (simp add: readBookings_writeBookings)
  have g1: "r2 = Json 200 (Bookings ?l1)" "w2 = w1"
    using get_loaded[OF rd1, of lc] assms(6) p(2) by (simp_all add: ensureDataFile_writeBookings)
  have m1: "mset ?l1 = add_mset ?bk (mset bs)" by (simp add: mset_sort_by)
  have fm: "filter_mset (same_fields s) (mset bs) = {#}"
    using arg_cong[OF nomatch, of mset] by simp
  have "mset (filter (same_fields s) ?l1) = filter_mset (same_fields s) (mset ?l1)"
    by simp
  also have "\<dots> = {#?bk#}" using m1 sf fm by simp
  finally have "mset (filter (same_fields s) ?l1) = {#?bk#}" .
  then have f1: "filter (same_fields s) ?l1 = [?bk]" by (rule mset_single_list)
  have rd2: "fst (readBookings w2) = Inr (bs @ [?bk])" using rd1 g1(2) by simp
  have ne: "length (filter (\<lambda>x. ident x \<noteq> uuid) (bs @ [?bk])) \<noteq> length (bs @ [?bk])"
    using fresh by simp
  have d: "r3 = Json 200 Ok" "w3 = writeBookings bs w1"
    using delete_loaded[OF rd2, of uuid] assms(7) ne fresh g1(2) p(2)
    by (simp_all add: ensureDataFile_writeBookings)
  have rd3: "fst (readBookings w3) = Inr bs"
    using d(2) by (simp add: readBookings_writeBookings)
  have g2: "r4 = Json 200 (Bookings ?l2)"
    using get_loaded[OF rd3, of lc] assms(8) by simp
  have g0: "fst (handleApi_GET lc w) = Json 200 (Bookings ?l2)"
    using get_loaded[OF assms(2), of lc] by simp
  have notin: "?bk \<notin> set ?l2"
  proof
    assume "?bk \<in> set ?l2"
    then have "?bk \<in> set bs" by (simp add: set_sort_by)
    then have "ident ?bk \<in> ident ` set bs" by (rule imageI)
    with assms(4) show False by simp
  qed
  have "set (filter (same_fields s) ?l2) = {}"
    using nomatch by (auto simp: set_sort_by filter_empty_conv)
  then have f2: "filter (same_fields s) ?l2 = []" by simp
  have m2: "mset ?l2 = mset bs" by (rule mset_sort_by)
  show ?thesis
    using p(1) sf g1(1) f1 m1 d(1) g2 notin f2 m2 g0 by (intro exI[of _ ?bk] exI[of _ ?l1] exI[of _ ?l2]) simp
qed

theorem create_list_delete_round_trip_witness:
  "parseAndValidateSlot (JsonValue \<lparr>b_date = Str ''2024-06-01'', b_time = Str ''10:00'', b_duration = Coerced (Finite 30)\<rparr>)
     = Accepted \<lparr>date = ''2024-06-01'', time = ''10:00'', duration = 30, startMinutes = 600, endMinutes = 630\<rparr>
   \<and> fst (readBookings \<lparr>data_file = Some (Parsed (JArray [\<lparr>date = ''2024-06-01'', time = ''09:00'', duration = 60, startMinutes = 540, endMinutes = 600, ident = ''id-2'', createdAt = ''2024-05-30T10:00:00.000Z''\<rparr>])), saved = []\<rparr>)
     = Inr [\<lparr>date = ''2024-06-01'', time = ''09:00'', duration = 60, startMinutes = 540, endMinutes = 600, ident = ''id-2'', createdAt = ''2024-05-30T10:00:00.000Z''\<rparr>]
   \<and> \<not> conflictsWith \<lparr>date = ''2024-06-01'', time = ''10:00'', duration = 30, startMinutes = 600, endMinutes = 630\<rparr>
         \<lparr>date = ''2024-06-01'', time = ''09:00'', duration = 60, startMinutes = 540, endMinutes = 600, ident = ''id-2'', createdAt = ''2024-05-30T10:00:00.000Z''\<rparr>
   \<and> (\<exists>bk l1 l2.
         fst (handleApi_POST (JsonValue \<lparr>b_date = Str ''2024-06-01'', b_time = Str ''10:00'', b_duration = Coerced (Finite 30)\<rparr>)
            ''id-9'' ''2024-05-31T10:00:00.000Z''
            \<lparr>data_file = Some (Parsed (JArray [\<lparr>date = ''2024-06-01'', time = ''09:00'', duration = 60, startMinutes = 540, endMinutes = 600, ident = ''id-2'', createdAt = ''2024-05-30T10:00:00.000Z''\<rparr>])), saved = []\<rparr>) = Json 201 (Created bk)
       \<and> fst (handleApi_GET compare_code_units (snd (handleApi_POST (JsonValue \<lparr>b_date = Str ''2024-06-01'', b_time = Str ''10:00'', b_duration = Coerced (Finite 30)\<rparr>)
            ''id-9'' ''2024-05-31T10:00:00.000Z''
            \<lparr>data_file = Some (Parsed (JArray [\<lparr>date = ''2024-06-01'', time = ''09:00'', duration = 60, startMinutes = 540, endMinutes = 600, ident = ''id-2'', createdAt = ''2024-05-30T10:00:00.000Z''\<rparr>])), saved = []\<rparr>)))
           = Json 200 (Bookings l1)
       \<and> filter (same_fields \<lparr>date = ''2024-06-01'', time = ''10:00'', duration = 30, startMinutes = 600, endMinutes = 630\<rparr>) l1 = [bk]
       \<and> fst (handleApi_GET compare_code_units (snd (handleApi_DELETE ''id-9''
                (snd (handleApi_GET compare_code_units (snd (handleApi_POST (JsonValue \<lparr>b_date = Str ''2024-06-01'', b_time = Str ''10:00'', b_duration = Coerced (Finite 30)\<rparr>)
            ''id-9'' ''2024-05-31T10:00:00.000Z''
            \<lparr>data_file = Some (Parsed (JArray [\<lparr>date = ''2024-06-01'', time = ''09:00'', duration = 60, startMinutes = 540, endMinutes = 600, ident = ''id-2'', createdAt = ''2024-05-30T10:00:00.000Z''\<rparr>])), saved = []\<rparr>)))))))
           = Json 200 (Bookings l2)
       \<and> bk \<notin> set l2
       \<and> mset l2 = mset [\<lparr>date = ''2024-06-01'', time = ''09:00'', duration = 60, startMinutes = 540, endMinutes = 600, ident = ''id-2'', createdAt = ''2024-05-30T10:00:00.000Z''\<rparr>])"
proof -
  let ?B = "(JsonValue \<lparr>b_date = Str ''2024-06-01'', b_time = Str ''10:00'', b_duration = Coerced (Finite 30)\<rparr>)"
  let ?S = "\<lparr>date = ''2024-06-01'', time = ''10:00'', duration = 30, startMinutes = 600, endMinutes = 630\<rparr>"
  let ?b = "\<lparr>date = ''2024-06-01'', time = ''09:00'', duration = 60, startMinutes = 540, endMinutes = 600, ident = ''id-2'', createdAt = ''2024-05-30T10:00:00.000Z''\<rparr>"
  let ?W = "\<lparr>data_file = Some (Parsed (JArray [\<lparr>date = ''2024-06-01'', time = ''09:00'', duration = 60, startMinutes = 540, endMinutes = 600, ident = ''id-2'', createdAt = ''2024-05-30T10:00:00.000Z''\<rparr>])), saved = []\<rparr>"
  let ?p = "handleApi_POST ?B ''id-9'' ''2024-05-31T10:00:00.000Z'' ?W"
  let ?g1 = "handleApi_GET compare_code_units (snd ?p)"
  let ?d = "handleApi_DELETE ''id-9'' (snd ?g1)"
  let ?g2 = "handleApi_GET compare_code_units (snd ?d)"
  have p: "parseAndValidateSlot ?B = Accepted ?S" by code_simp
  have r: "fst (readBookings ?W) = Inr [?b]"
    by (simp add: readBookings_def ensureDataFile_def)
  have n: "\<not> conflictsWith ?S ?b" by (simp add: conflictsWith_def hasOverlap_def)
  then have n': "\<forall>e\<in>set [?b]. \<not> conflictsWith ?S e" by simp
  have f: "''id-9'' \<notin> ident ` set [?b]" by simp
  have e1: "?p = (fst ?p, snd ?p)" and e2: "?g1 = (fst ?g1, snd ?g1)"
    and e3: "?d = (fst ?d, snd ?d)" and e4: "?g2 = (fst ?g2, snd ?g2)"
    by simp_all
  from create_list_delete_round_trip[OF p r n' f e1 e2 e3 e4]
  obtain bk l1 l2 where "fst ?p = Json 201 (Created bk)" "fst ?g1 = Json 200 (Bookings l1)"
    "filter (same_fields ?S) l1 = [bk]" "fst ?g2 = Json 200 (Bookings l2)" "bk \<notin> set l2"
    "mset l2 = mset [?b]"
    by blast
  then have "\<exists>bk l1 l2. fst ?p = Json 201 (Created bk) \<and> fst ?g1 = Json 200 (Bookings l1)
       \<and> filter (same_fields ?S) l1 = [bk] \<and> fst ?g2 = Json 200 (Bookings l2)
       \<and> bk \<notin> set l2 \<and> mset l2 = mset [?b]"
    by blast
  with p r n show ?thesis by blast
qed

subsection \<open>Loading a file that does not parse\<close>

text \<open>
  Claim C1 asks that a load treats a file that does not parse, or that parses to something
  other than an array, as the empty collection, with no error to the caller. The source
  does so for a parsed value that is not an array, and for a file that does not exist
  yet. For a text \<open>JSON.parse\<close> refuses it does not: \<open>JSON.parse\<close> throws, \<open>readBookings\<close>
  has no handler, and the exception leaves the listing and the deletion with no response
  sent (the creation answers 400 with the exception's message, lemma
  \<open>unparsable_file_post\<close>).
\<close>

theorem unparsable_file_throws:
  "readBookings \<lparr>data_file = Some Unparsable, saved = []\<rparr>
     = (Inl SyntaxError, \<lparr>data_file = Some Unparsable, saved = []\<rparr>)
   \<and> fst (handleApi_GET compare_code_units \<lparr>data_file = Some Unparsable, saved = []\<rparr>)
       = Threw SyntaxError
   \<and> fst (handleApi_DELETE ''id-1'' \<lparr>data_file = Some Unparsable, saved = []\<rparr>)
       = Threw SyntaxError
   \<and> readBookings \<lparr>data_file = Some (Parsed NotArray), saved = []\<rparr>
       = (Inr [], \<lparr>data_file = Some (Parsed NotArray), saved = []\<rparr>)
   \<and> readBookings \<lparr>data_file = None, saved = []\<rparr>
       = (Inr [], \<lparr>data_file = Some (Parsed (JArray [])), saved = []\<rparr>)"
  by (simp add: readBookings_def ensureDataFile_def handleApi_GET_def handleApi_DELETE_def)

lemma unparsable_file_post:
  assumes "parseAndValidateSlot b = Accepted s"
  shows "handleApi_POST b uuid now \<lparr>data_file = Some Unparsable, saved = sv\<rparr>
           = (Json 400 (ErrorMessage SyntaxError), \<lparr>data_file = Some Unparsable, saved = sv\<rparr>)"
  using assms by (simp add: handleApi_POST_def readBookings_def ensureDataFile_def)

lemma readBookings_throws_iff:
  "fst (readBookings w) = Inl SyntaxError \<longleftrightarrow> data_file w = Some Unparsable"
  by (auto simp: readBookings_def ensureDataFile_def Let_def
      split: option.splits content.splits json.splits)

end
